theory Spec2Isabelle
  imports Main "HOL-Library.AList"
begin

section \<open>The sandbox session manager\<close>

text \<open>
  A shallow embedding of the class \<open>SandboxManager\<close> (the sandbox manager service of the
  backend). The manager keeps a \<open>Map\<close> from session identifiers to session objects and
  drives Docker through shell commands. In the model
  \<^item> the \<open>Map\<close> is an association list in insertion order (\<open>map_of\<close> is \<open>get\<close>,
    \<open>AList.update\<close> is \<open>set\<close> and the mutation of a stored object, \<open>AList.delete\<close> is
    \<open>delete\<close>);
  \<^item> every \<open>throw\<close> is a value \<open>Inl e\<close> of the result, returned together with the
    manager as the code left it;
  \<^item> Docker is a parameter: a record of functions giving, for each command the manager
    runs, what that command answers;
  \<^item> the manager is an \<open>EventEmitter\<close>: \<open>emit\<close> appends to a log of events, and the
    event \<open>error\<close> makes \<open>emit\<close> throw when no listener is registered for it, which is
    the state of a new manager (listeners themselves are taken not to throw);
  \<^item> \<open>console.warn\<close> appends to a log of warnings, and every Docker command that is run
    is appended to a log of issued commands;
  \<^item> strings are byte strings in UTF-8;
  \<^item> the clock readings (\<open>new Date()\<close>, \<open>Date.now()\<close>) are arguments, in milliseconds.
\<close>

subsection \<open>Data\<close>

record SandboxSession =
  sessionId :: string
  containerId :: string
  createdAt :: int
  lastActivityAt :: int
  memoryLimit :: string
  cpuLimit :: string
  diskLimit :: string
  timeoutMs :: int
  isActive :: bool

text \<open>
  \<open>exitCode\<close> is declared a number, but it is filled from \<open>error.code\<close>, which Node sets
  to a number (the exit status) or to a string (such as \<open>ENOENT\<close>).
\<close>

datatype js_code = Num int | Str string

record ExecutionResult =
  exitCode :: js_code
  stdout :: string
  stderr :: string
  durationMs :: int
  timedOut :: bool

datatype op_kind = OpRead | OpWrite | OpDelete | OpList | OpOther string

record FileOperation =
  op_type :: op_kind
  path :: string
  content :: "string option"
  recursive :: "bool option"

text \<open>The argument of \<open>updateSessionLimits\<close>: each field may be absent.\<close>

record limits =
  memoryLimit_opt :: "string option"
  cpuLimit_opt :: "string option"
  timeoutMs_opt :: "int option"

record exec_options =
  cwd :: "string option"
  env :: "(string \<times> string) list"

text \<open>
  The errors the manager throws, one constructor for each message. \<open>UnhandledError\<close> is
  what \<open>emit\<close> throws for an \<open>error\<close> event without listener; it carries the event's
  payload (session, operation, error) as its context.
\<close>

datatype error =
    SessionNotFound string
  | SessionInactive string
  | ContentRequired
  | UnknownOperation string
  | CreateFailed string
  | RemoveFailed string
  | MemoryUpdateFailed string
  | ProviderError string
  | UnhandledError string "string option" error

text \<open>What \<open>fileOperation\<close> returns: \<open>string | string[] | null\<close>.\<close>

datatype file_result = Content string | Paths "string list" | Nothing

text \<open>
  What \<open>getSessionHealth\<close> returns: the full status, or the object of the \<open>catch\<close>
  branch with its \<open>error\<close> field.
\<close>

datatype health =
    Healthy string bool int int string string string
  | Degraded string bool string

datatype event =
    SessionCreated string string
  | SessionDestroyed string
  | SessionCleanup string
  | ErrorEvent string "string option" error
  | ExecutionCompleted string ExecutionResult
  | ExecutionError string ExecutionResult
  | FileOperationError string FileOperation error
  | LimitsUpdated string limits

subsection \<open>Docker\<close>

text \<open>
  The shell commands the manager runs. Those of the session life cycle are given by their
  arguments. The file helpers splice a path, and the content of a write, into the command
  line without escaping, so for them the command is the line itself, as it is handed to
  the shell.
\<close>

datatype docker_cmd =
    DockerRun
  | DockerStop string
  | DockerRm string
  | DockerExec string string
  | DockerStats string
  | DockerUpdateMemory string string
  | Shell string

text \<open>
  The value a failed \<open>exec\<close> hands to its callback, as far as the manager reads it: the
  \<open>code\<close> and \<open>killed\<close> properties of the exception, and the two output strings.
\<close>

record exec_failure =
  fail_code :: "js_code option"
  fail_killed :: bool
  fail_stdout :: string
  fail_stderr :: string

text \<open>
  \<open>executeInContainer\<close> races a timer against \<open>exec\<close>. Which of the two callbacks runs
  first, and with what, is Docker's answer.
\<close>

datatype exec_race =
    TimerFirst
  | ExecDone string string
  | ExecFailed exec_failure

text \<open>
  The answer of \<open>docker stats\<close> after \<open>JSON.parse\<close>: the command fails, or its output
  does not parse to an object, or it parses to an object whose three fields may be missing.
\<close>

datatype stats_answer =
    StatsFailed string
  | StatsUnparsable
  | Stats "string option" "string option" "string option"

text \<open>
  For commands run through \<open>execAsync\<close>: \<open>Inl\<close> is the rejection, \<open>Inr\<close> the standard
  output. The field \<open>execAsync\<close> answers a whole command line.
\<close>

record provider =
  docker_run :: "string + string"
  docker_stop :: "string \<Rightarrow> string + string"
  docker_rm :: "string \<Rightarrow> string + string"
  docker_exec :: "string \<Rightarrow> string \<Rightarrow> int \<Rightarrow> exec_race"
  docker_stats :: "string \<Rightarrow> stats_answer"
  docker_update_memory :: "string \<Rightarrow> string \<Rightarrow> string + string"
  execAsync :: "string \<Rightarrow> string + string"

subsection \<open>The manager\<close>

text \<open>
  \<open>error_listener\<close> tells whether a listener is registered for the event \<open>error\<close>. The
  class registers none; a caller may, with \<open>on('error', ...)\<close>.
\<close>

record manager =
  sessions :: "(string \<times> SandboxSession) list"
  emitted :: "event list"
  warned :: "string list"
  issued :: "docker_cmd list"
  error_listener :: bool

definition baseMemoryLimit :: string where
  "baseMemoryLimit = ''512m''"

definition baseCpuLimit :: string where
  "baseCpuLimit = ''1''"

definition baseTimeoutMs :: int where
  "baseTimeoutMs = 5 * 60 * 1000"

definition diskLimitGb :: string where
  "diskLimitGb = ''1''"


text \<open>
  \<open>emit\<close> for the events other than \<open>error\<close>: it never throws, with or without a
  listener. \<open>emit_error\<close> is \<open>emit('error', payload)\<close>: when no listener is registered
  for \<open>error\<close> it throws, and the payload, which is not an \<open>Error\<close>, becomes the context
  of the error thrown.
\<close>

definition emit :: "event \<Rightarrow> manager \<Rightarrow> manager" where
  "emit ev m = m\<lparr>emitted := emitted m @ [ev]\<rparr>"

definition emit_error ::
  "string \<Rightarrow> string option \<Rightarrow> error \<Rightarrow> manager \<Rightarrow> error option \<times> manager" where
  "emit_error sid operation e m =
     (if error_listener m then (None, emit (ErrorEvent sid operation e) m)
      else (Some (UnhandledError sid operation e), emit (ErrorEvent sid operation e) m))"

definition run :: "docker_cmd \<Rightarrow> manager \<Rightarrow> manager" where
  "run c m = m\<lparr>issued := issued m @ [c]\<rparr>"

text \<open>The mutation of a session object that the \<open>Map\<close> holds under \<open>sid\<close>.\<close>

definition store :: "string \<Rightarrow> SandboxSession \<Rightarrow> manager \<Rightarrow> manager" where
  "store sid s m = m\<lparr>sessions := AList.update sid s (sessions m)\<rparr>"

subsection \<open>Session lookup\<close>

definition validateSession :: "manager \<Rightarrow> string \<Rightarrow> error + SandboxSession" where
  "validateSession m sid =
     (case map_of (sessions m) sid of
        None \<Rightarrow> Inl (SessionNotFound sid)
      | Some session \<Rightarrow>
          if \<not> isActive session then Inl (SessionInactive sid) else Inr session)"

definition listSessions :: "manager \<Rightarrow> SandboxSession list" where
  "listSessions m = filter isActive (map snd (sessions m))"

subsection \<open>Containers\<close>

definition createContainer :: "provider \<Rightarrow> manager \<Rightarrow> (error + string) \<times> manager" where
  "createContainer p m =
     (case docker_run p of
        Inl e \<Rightarrow> (Inl (CreateFailed e), run DockerRun m)
      | Inr out \<Rightarrow> (Inr out, run DockerRun m))"

text \<open>\<open>stopContainer\<close> catches the failure of \<open>docker stop\<close> and only warns.\<close>

definition stopContainer :: "provider \<Rightarrow> string \<Rightarrow> manager \<Rightarrow> manager" where
  "stopContainer p cid m =
     (case docker_stop p cid of
        Inl e \<Rightarrow> (run (DockerStop cid) m)\<lparr>warned := warned m @ [e]\<rparr>
      | Inr _ \<Rightarrow> run (DockerStop cid) m)"

definition removeContainer :: "provider \<Rightarrow> string \<Rightarrow> manager \<Rightarrow> (error + unit) \<times> manager" where
  "removeContainer p cid m =
     (case docker_rm p cid of
        Inl e \<Rightarrow> (Inl (RemoveFailed e), run (DockerRm cid) m)
      | Inr _ \<Rightarrow> (Inr (), run (DockerRm cid) m))"

subsection \<open>Creating and destroying sessions\<close>

text \<open>
  \<open>createSession\<close>: the identifier comes from the clock and \<open>Math.random\<close>, so it is an
  argument here. The output of \<open>docker run\<close> is trimmed in the source; the provider is
  taken to answer the trimmed identifier.
\<close>

definition createSession ::
  "provider \<Rightarrow> string \<Rightarrow> int \<Rightarrow> manager \<Rightarrow> (error + string) \<times> manager" where
  "createSession p sid now m =
     (case createContainer p m of
        (Inl e, m1) \<Rightarrow> (Inl e, m1)
      | (Inr cid, m1) \<Rightarrow>
          (let session = \<lparr>sessionId = sid, containerId = cid, createdAt = now,
                 lastActivityAt = now, memoryLimit = baseMemoryLimit,
                 cpuLimit = baseCpuLimit, diskLimit = diskLimitGb @ ''gb'',
                 timeoutMs = baseTimeoutMs, isActive = True\<rparr>
           in (Inr sid, emit (SessionCreated sid cid) (store sid session m1))))"

definition destroySession :: "provider \<Rightarrow> string \<Rightarrow> manager \<Rightarrow> (error + unit) \<times> manager" where
  "destroySession p sid m =
     (case map_of (sessions m) sid of
        None \<Rightarrow> (Inl (SessionNotFound sid), m)
      | Some session \<Rightarrow>
          (let m1 = stopContainer p (containerId session) m in
           case removeContainer p (containerId session) m1 of
             (Inl e, m2) \<Rightarrow>
               (case emit_error sid (Some ''destroy'') e m2 of
                  (Some unhandled, m3) \<Rightarrow> (Inl unhandled, m3)
                | (None, m3) \<Rightarrow> (Inl e, m3))
           | (Inr _, m2) \<Rightarrow>
               (let m3 = store sid (session\<lparr>isActive := False\<rparr>) m2;
                    m4 = m3\<lparr>sessions := AList.delete sid (sessions m3)\<rparr>
                in (Inr (), emit (SessionDestroyed sid) m4))))"

subsection \<open>Running a command\<close>

text \<open>
  What the promise of \<open>executeInContainer\<close> is rejected with, as far as \<open>executeCommand\<close>
  reads it. The timer rejects with a fresh \<open>Error\<close>, which has a message and none of the
  other properties. A failed \<open>exec\<close> rejects with the spread of its exception, extended by
  the two outputs: the spread copies \<open>code\<close> and \<open>killed\<close> and drops the message, which
  is not enumerable.
\<close>

record rejection =
  err_code :: "js_code option"
  err_killed :: "bool option"
  err_stdout :: "string option"
  err_stderr :: "string option"
  err_message :: "string option"

text \<open>The argument \<open>options\<close> is accepted by the source and never read.\<close>

definition executeInContainer ::
  "provider \<Rightarrow> string \<Rightarrow> string \<Rightarrow> int \<Rightarrow> exec_options \<Rightarrow> manager
     \<Rightarrow> (rejection + string \<times> string) \<times> manager" where
  "executeInContainer p cid command timeout opts m =
     (case docker_exec p cid command timeout of
        TimerFirst \<Rightarrow>
          (Inl \<lparr>err_code = None, err_killed = None, err_stdout = None, err_stderr = None,
                err_message = Some ''Execution timeout exceeded''\<rparr>,
           run (DockerExec cid command) m)
      | ExecFailed f \<Rightarrow>
          (Inl \<lparr>err_code = fail_code f, err_killed = Some (fail_killed f),
                err_stdout = Some (fail_stdout f), err_stderr = Some (fail_stderr f),
                err_message = None\<rparr>,
           run (DockerExec cid command) m)
      | ExecDone out err \<Rightarrow> (Inr (out, err), run (DockerExec cid command) m))"

text \<open>\<open>error.code || 1\<close>, and \<open>a || d\<close> on strings.\<close>

definition code_or_1 :: "js_code option \<Rightarrow> js_code" where
  "code_or_1 c = (case c of
       Some (Num n) \<Rightarrow> if n \<noteq> 0 then Num n else Num 1
     | Some (Str s) \<Rightarrow> if s \<noteq> [] then Str s else Num 1
     | None \<Rightarrow> Num 1)"

definition str_or :: "string option \<Rightarrow> string \<Rightarrow> string" where
  "str_or v d = (case v of Some s \<Rightarrow> if s \<noteq> [] then s else d | None \<Rightarrow> d)"

definition executeCommand ::
  "provider \<Rightarrow> int \<Rightarrow> int \<Rightarrow> int \<Rightarrow> string \<Rightarrow> string \<Rightarrow> exec_options \<Rightarrow> manager
     \<Rightarrow> (error + ExecutionResult) \<times> manager" where
  "executeCommand p now startTime endTime sid command opts m =
     (case validateSession m sid of
        Inl e \<Rightarrow> (Inl e, m)
      | Inr session0 \<Rightarrow>
          (let session = session0\<lparr>lastActivityAt := now\<rparr>;
               m1 = store sid session m;
               timeout = timeoutMs session
           in case executeInContainer p (containerId session) command timeout opts m1 of
                (Inr (out, err), m2) \<Rightarrow>
                  (let result = \<lparr>exitCode = Num 0, stdout = out, stderr = err,
                         durationMs = endTime - startTime, timedOut = False\<rparr>
                   in (Inr result, emit (ExecutionCompleted sid result) m2))
              | (Inl error, m2) \<Rightarrow>
                  (let result = \<lparr>exitCode = code_or_1 (err_code error),
                         stdout = str_or (err_stdout error) [],
                         stderr = str_or (err_stderr error)
                                   (str_or (err_message error) ''Unknown error''),
                         durationMs = endTime - startTime,
                         timedOut = (err_killed error = Some True
                                     \<or> err_code error = Some (Str ''ETIMEDOUT''))\<rparr>
                   in (Inr result, emit (ExecutionError sid result) m2))))"

subsection \<open>Files\<close>

text \<open>The single quote, the double quote and the newline, for the command lines.\<close>

definition sq :: string where
  "sq = [CHR 0x27]"

definition dq :: string where
  "dq = [CHR 0x22]"

definition nl :: string where
  "nl = [CHR 0x0A]"

text \<open>
  Each helper builds its command line as the template literal of the source does: the path
  goes between double quotes as it is.
\<close>

definition readFileInContainer ::
  "provider \<Rightarrow> string \<Rightarrow> string \<Rightarrow> manager \<Rightarrow> (error + file_result) \<times> manager" where
  "readFileInContainer p cid filePath m =
     (let line = ''docker exec '' @ cid @ '' cat '' @ dq @ filePath @ dq in
      case execAsync p line of
        Inl e \<Rightarrow> (Inl (ProviderError e), run (Shell line) m)
      | Inr out \<Rightarrow> (Inr (Content out), run (Shell line) m))"

text \<open>
  \<open>content.replace(/'/g, "'\\''")\<close>: every single quote becomes the four characters
  quote, backslash, quote, quote.
\<close>

definition escapeSingleQuotes :: "string \<Rightarrow> string" where
  "escapeSingleQuotes c =
     concat (map (\<lambda>x. if x = CHR 0x27 then [CHR 0x27, CHR 0x5C, CHR 0x27, CHR 0x27] else [x]) c)"

text \<open>
  The argument that the command line of a write gives to \<open>bash -c\<close>, in the quoting of
  the line: a quoted \<open>cat\<close> into the path from a here-document, the delimiter \<open>EOF\<close>
  outside the quotes, and quoted again a newline, the escaped content, a newline and
  \<open>EOF\<close>.
\<close>

definition writeArg :: "string \<Rightarrow> string \<Rightarrow> string" where
  "writeArg filePath c =
     sq @ ''cat > '' @ dq @ filePath @ dq @ '' << '' @ sq @ ''EOF'' @ sq @ nl
       @ escapeSingleQuotes c @ nl @ ''EOF'' @ sq"

definition writeFileInContainer ::
  "provider \<Rightarrow> string \<Rightarrow> string \<Rightarrow> string \<Rightarrow> manager \<Rightarrow> (error + file_result) \<times> manager" where
  "writeFileInContainer p cid filePath c m =
     (let line = ''docker exec '' @ cid @ '' bash -c '' @ writeArg filePath c in
      case execAsync p line of
        Inl e \<Rightarrow> (Inl (ProviderError e), run (Shell line) m)
      | Inr _ \<Rightarrow> (Inr Nothing, run (Shell line) m))"

text \<open>\<open>recursive ? '-rf' : '-f'\<close>: an absent flag counts as false.\<close>

definition deleteFileInContainer ::
  "provider \<Rightarrow> string \<Rightarrow> string \<Rightarrow> bool option \<Rightarrow> manager \<Rightarrow> (error + file_result) \<times> manager" where
  "deleteFileInContainer p cid filePath r m =
     (let rmFlags = (if r = Some True then ''-rf'' else ''-f'');
          line = ''docker exec '' @ cid @ '' rm '' @ rmFlags @ '' '' @ dq @ filePath @ dq in
      case execAsync p line of
        Inl e \<Rightarrow> (Inl (ProviderError e), run (Shell line) m)
      | Inr _ \<Rightarrow> (Inr Nothing, run (Shell line) m))"

text \<open>\<open>stdout.split('\n')\<close>.\<close>

fun split_lines :: "string \<Rightarrow> string list" where
  "split_lines [] = [[]]"
| "split_lines (c # cs) =
     (if c = CHR 0x0A then [] # split_lines cs
      else (case split_lines cs of
              [] \<Rightarrow> [[c]]
            | l # ls \<Rightarrow> (c # l) # ls))"

text \<open>
  \<open>line.trim()\<close> is the empty string, that is, the line consists of white space and line
  terminators of JavaScript only. In UTF-8 these are the bytes 09 to 0D and 20, the two
  bytes C2 A0 (U+00A0), and the three bytes of U+1680, U+2000 to U+200A, U+2028, U+2029,
  U+202F, U+205F, U+3000 and U+FEFF.
\<close>

definition space1 :: "char \<Rightarrow> bool" where
  "space1 a = (a \<in> set [CHR 0x09, CHR 0x0A, CHR 0x0B, CHR 0x0C, CHR 0x0D, CHR 0x20])"

definition space2 :: "char \<Rightarrow> char \<Rightarrow> bool" where
  "space2 a b = (a = CHR 0xC2 \<and> b = CHR 0xA0)"

definition space3 :: "char \<Rightarrow> char \<Rightarrow> char \<Rightarrow> bool" where
  "space3 a b c =
     (a = CHR 0xE1 \<and> b = CHR 0x9A \<and> c = CHR 0x80
      \<or> a = CHR 0xE2 \<and> b = CHR 0x80
          \<and> c \<in> set [CHR 0x80, CHR 0x81, CHR 0x82, CHR 0x83, CHR 0x84, CHR 0x85, CHR 0x86,
                      CHR 0x87, CHR 0x88, CHR 0x89, CHR 0x8A, CHR 0xA8, CHR 0xA9, CHR 0xAF]
      \<or> a = CHR 0xE2 \<and> b = CHR 0x81 \<and> c = CHR 0x9F
      \<or> a = CHR 0xE3 \<and> b = CHR 0x80 \<and> c = CHR 0x80
      \<or> a = CHR 0xEF \<and> b = CHR 0xBB \<and> c = CHR 0xBF)"

fun blank :: "string \<Rightarrow> bool" where
  "blank [] = True"
| "blank [a] = space1 a"
| "blank [a, b] = (if space1 a then blank [b] else space2 a b)"
| "blank (a # b # c # cs) =
     (if space1 a then blank (b # c # cs)
      else if space2 a b then blank (c # cs)
      else if space3 a b c then blank cs
      else False)"

text \<open>\<open>line.replace(/^\/sandbox/, '')\<close>.\<close>

definition strip_sandbox :: "string \<Rightarrow> string" where
  "strip_sandbox line = (if take 8 line = ''/sandbox'' then drop 8 line else line)"

definition listFilesInContainer ::
  "provider \<Rightarrow> string \<Rightarrow> string \<Rightarrow> manager \<Rightarrow> (error + file_result) \<times> manager" where
  "listFilesInContainer p cid dirPath m =
     (let line = ''docker exec '' @ cid @ '' find '' @ dq @ dirPath @ dq @ '' -type f'' in
      case execAsync p line of
        Inl e \<Rightarrow> (Inr (Paths []), run (Shell line) m)
      | Inr out \<Rightarrow>
          (Inr (Paths (map strip_sandbox
                  (filter (\<lambda>l. \<not> blank l) (split_lines out)))),
           run (Shell line) m))"

definition fileOperation ::
  "provider \<Rightarrow> int \<Rightarrow> string \<Rightarrow> FileOperation \<Rightarrow> manager \<Rightarrow> (error + file_result) \<times> manager" where
  "fileOperation p now sid operation m =
     (case validateSession m sid of
        Inl e \<Rightarrow> (Inl e, m)
      | Inr session0 \<Rightarrow>
          (let session = session0\<lparr>lastActivityAt := now\<rparr>;
               m1 = store sid session m;
               sandboxPath = ''/sandbox'' @ path operation;
               r = (case op_type operation of
                      OpRead \<Rightarrow> readFileInContainer p (containerId session) sandboxPath m1
                    | OpWrite \<Rightarrow>
                        (case content operation of
                           None \<Rightarrow> (Inl ContentRequired, m1)
                         | Some c \<Rightarrow>
                             if c = [] then (Inl ContentRequired, m1)
                             else writeFileInContainer p (containerId session) sandboxPath c m1)
                    | OpDelete \<Rightarrow>
                        deleteFileInContainer p (containerId session) sandboxPath
                          (recursive operation) m1
                    | OpList \<Rightarrow> listFilesInContainer p (containerId session) sandboxPath m1
                    | OpOther t \<Rightarrow> (Inl (UnknownOperation t), m1))
           in case r of
                (Inl e, m2) \<Rightarrow> (Inl e, emit (FileOperationError sid operation e) m2)
              | (Inr v, m2) \<Rightarrow> (Inr v, m2)))"

subsection \<open>Health and limits\<close>

definition getSessionHealth :: "provider \<Rightarrow> string \<Rightarrow> manager \<Rightarrow> (error + health) \<times> manager" where
  "getSessionHealth p sid m =
     (case validateSession m sid of
        Inl e \<Rightarrow> (Inl e, m)
      | Inr session \<Rightarrow>
          (case docker_stats p (containerId session) of
             Stats mem cpu st \<Rightarrow>
               (Inr (Healthy sid (isActive session) (createdAt session)
                       (lastActivityAt session) (str_or mem ''N/A'') (str_or cpu ''N/A'')
                       (str_or st ''running'')),
                run (DockerStats (containerId session)) m)
           | StatsUnparsable \<Rightarrow>
               (Inr (Degraded sid (isActive session) ''Failed to retrieve health status''),
                run (DockerStats (containerId session)) m)
           | StatsFailed e \<Rightarrow>
               (Inr (Degraded sid (isActive session) ''Failed to retrieve health status''),
                run (DockerStats (containerId session)) m)))"

text \<open>
  The three guarded assignments of \<open>updateSessionLimits\<close>: a field is assigned when the
  value given for it is truthy.
\<close>

definition applyLimits :: "limits \<Rightarrow> SandboxSession \<Rightarrow> SandboxSession" where
  "applyLimits lims session =
     (let s1 = (case memoryLimit_opt lims of
                  Some v \<Rightarrow> if v \<noteq> [] then session\<lparr>memoryLimit := v\<rparr> else session
                | None \<Rightarrow> session);
          s2 = (case cpuLimit_opt lims of
                  Some v \<Rightarrow> if v \<noteq> [] then s1\<lparr>cpuLimit := v\<rparr> else s1
                | None \<Rightarrow> s1);
          s3 = (case timeoutMs_opt lims of
                  Some n \<Rightarrow> if n \<noteq> 0 then s2\<lparr>timeoutMs := n\<rparr> else s2
                | None \<Rightarrow> s2)
      in s3)"

definition updateSessionLimits ::
  "provider \<Rightarrow> string \<Rightarrow> limits \<Rightarrow> manager \<Rightarrow> (error + unit) \<times> manager" where
  "updateSessionLimits p sid lims m =
     (case validateSession m sid of
        Inl e \<Rightarrow> (Inl e, m)
      | Inr session0 \<Rightarrow>
          (let session = applyLimits lims session0;
               m1 = store sid session m
           in case memoryLimit_opt lims of
                None \<Rightarrow> (Inr (), emit (LimitsUpdated sid lims) m1)
              | Some v \<Rightarrow>
                  if v = [] then (Inr (), emit (LimitsUpdated sid lims) m1)
                  else (case docker_update_memory p v (containerId session) of
                          Inl e \<Rightarrow>
                            (Inl (MemoryUpdateFailed e),
                             run (DockerUpdateMemory v (containerId session)) m1)
                        | Inr _ \<Rightarrow>
                            (Inr (),
                             emit (LimitsUpdated sid lims)
                               (run (DockerUpdateMemory v (containerId session)) m1)))))"

subsection \<open>The periodic cleanup\<close>




subsection \<open>The shell and the here-document of a write\<close>

text \<open>
  What the shell does with the argument of \<open>bash -c\<close> in the line of a write, for an
  argument whose parts outside single quotes hold no character special to the shell but
  the backslash: the single quotes are removed, and a backslash outside them stands for
  the character after it. The flag tells whether the text read so far has left a single
  quote open.
\<close>

fun sh_unquote :: "bool \<Rightarrow> string \<Rightarrow> string" where
  "sh_unquote q [] = []"
| "sh_unquote True (c # cs) =
     (if c = CHR 0x27 then sh_unquote False cs else c # sh_unquote True cs)"
| "sh_unquote False [c] = (if c = CHR 0x27 \<or> c = CHR 0x5C then [] else [c])"
| "sh_unquote False (c # d # ds) =
     (if c = CHR 0x27 then sh_unquote True (d # ds)
      else if c = CHR 0x5C then d # sh_unquote False ds
      else c # sh_unquote False (d # ds))"

text \<open>
  The script runs \<open>cat\<close> on a here-document with the delimiter \<open>EOF\<close>, opened on its
  first line: the here-document is made of the lines after the first, up to the first of
  them that is the delimiter. These lines are what \<open>cat\<close> writes to the file, so the
  file is empty when there is none.
\<close>

definition here_document :: "string \<Rightarrow> string list" where
  "here_document script = takeWhile (\<lambda>l. l \<noteq> ''EOF'') (tl (split_lines script))"

section \<open>Concrete managers and Docker behaviours\<close>

text \<open>
  A fresh manager, sessions as \<open>createSession\<close> builds them, and managers holding them:
  without a listener for \<open>error\<close>, as the constructor leaves them, and one with.
\<close>

definition new_manager :: manager where
  "new_manager = \<lparr>sessions = [], emitted = [], warned = [], issued = [],
       error_listener = False\<rparr>"

definition session1 :: SandboxSession where
  "session1 = \<lparr>sessionId = ''s1'', containerId = ''c1'', createdAt = 0,
       lastActivityAt = 0, memoryLimit = ''512m'', cpuLimit = ''1'', diskLimit = ''1gb'',
       timeoutMs = 300000, isActive = True\<rparr>"



definition manager1 :: manager where
  "manager1 = \<lparr>sessions = [(''s1'', session1)], emitted = [], warned = [], issued = [],
       error_listener = False\<rparr>"



text \<open>A Docker where every command succeeds, and variants where one kind of command fails.\<close>

definition docker_ok :: provider where
  "docker_ok =
     \<lparr>docker_run = Inr ''c1'',
      docker_stop = (\<lambda>cid. Inr cid),
      docker_rm = (\<lambda>cid. Inr cid),
      docker_exec = (\<lambda>cid command timeout. ExecDone ''hello'' []),
      docker_stats = (\<lambda>cid. Stats (Some ''10MiB / 512MiB'') (Some ''0.50%'') None),
      docker_update_memory = (\<lambda>v cid. Inr cid),
      execAsync = (\<lambda>line. Inr ''data'')\<rparr>"

definition docker_stop_fails :: provider where
  "docker_stop_fails = docker_ok\<lparr>docker_stop := (\<lambda>cid. Inl ''No such container'')\<rparr>"

definition docker_rm_fails :: provider where
  "docker_rm_fails = docker_ok\<lparr>docker_rm := (\<lambda>cid. Inl ''No such container'')\<rparr>"


definition docker_timer :: provider where
  "docker_timer = docker_ok\<lparr>docker_exec := (\<lambda>cid command timeout. TimerFirst)\<rparr>"

definition docker_exec_fails :: provider where
  "docker_exec_fails = docker_ok\<lparr>docker_exec := (\<lambda>cid command timeout.
      ExecFailed \<lparr>fail_code = Some (Num 127), fail_killed = False, fail_stdout = [],
        fail_stderr = ''bash: nosuchcmd: command not found''\<rparr>)\<rparr>"

definition docker_stats_fails :: provider where
  "docker_stats_fails = docker_ok\<lparr>docker_stats := (\<lambda>cid. StatsFailed ''No such container'')\<rparr>"

definition docker_update_fails :: provider where
  "docker_update_fails =
     docker_ok\<lparr>docker_update_memory := (\<lambda>v cid. Inl ''cannot update a stopped container'')\<rparr>"

text \<open>Arguments of the operations.\<close>

definition no_options :: exec_options where
  "no_options = \<lparr>cwd = None, env = []\<rparr>"

definition read_passwd :: FileOperation where
  "read_passwd = \<lparr>op_type = OpRead, path = ''/../../etc/passwd'', content = None,
       recursive = None\<rparr>"

definition write_a_txt :: FileOperation where
  "write_a_txt = \<lparr>op_type = OpWrite, path = ''/a.txt'', content = Some ''data'',
       recursive = None\<rparr>"

text \<open>A write whose content is the line \<open>EOF\<close> followed by the line \<open>exit 0\<close>.\<close>

definition write_eof :: FileOperation where
  "write_eof = \<lparr>op_type = OpWrite, path = ''/a.txt'',
       content = Some (''EOF'' @ [CHR 0x0A] @ ''exit 0''), recursive = None\<rparr>"

definition limits_all :: limits where
  "limits_all = \<lparr>memoryLimit_opt = Some ''256m'', cpuLimit_opt = Some ''2'',
       timeoutMs_opt = Some 120000\<rparr>"

definition limits_timeout :: limits where
  "limits_timeout = \<lparr>memoryLimit_opt = None, cpuLimit_opt = None,
       timeoutMs_opt = Some 120000\<rparr>"

definition limits_timeout0 :: limits where
  "limits_timeout0 = \<lparr>memoryLimit_opt = None, cpuLimit_opt = None, timeoutMs_opt = Some 0\<rparr>"

section \<open>Facts about the parts\<close>

lemma sessions_emit: "sessions (emit ev m) = sessions m"
  by (simp add: emit_def)



lemma sessions_run: "sessions (run c m) = sessions m"
  by (simp add: run_def)


lemma listener_run: "error_listener (run c m) = error_listener m"
  by (simp add: run_def)

lemma sessions_stopContainer: "sessions (stopContainer p cid m) = sessions m"
  by (simp add: stopContainer_def run_def split: sum.splits)


lemma listener_stopContainer: "error_listener (stopContainer p cid m) = error_listener m"
  by (simp add: stopContainer_def run_def split: sum.splits)



lemma destroySession_rm_failed:
  "map_of (sessions m) sid = Some s \<Longrightarrow> docker_rm p (containerId s) = Inl e \<Longrightarrow>
     destroySession p sid m =
       (Inl (if error_listener m then RemoveFailed e
             else UnhandledError sid (Some ''destroy'') (RemoveFailed e)),
        emit (ErrorEvent sid (Some ''destroy'') (RemoveFailed e))
          (run (DockerRm (containerId s)) (stopContainer p (containerId s) m)))"
  by (simp add: destroySession_def removeContainer_def Let_def emit_error_def listener_run
        listener_stopContainer)

lemma destroySession_rm_done:
  "map_of (sessions m) sid = Some s \<Longrightarrow> docker_rm p (containerId s) = Inr a \<Longrightarrow>
     destroySession p sid m =
       (Inr (),
        emit (SessionDestroyed sid)
          ((run (DockerRm (containerId s)) (stopContainer p (containerId s) m))
             \<lparr>sessions := AList.delete sid (sessions m)\<rparr>))"
  by (simp add: destroySession_def removeContainer_def Let_def store_def sessions_run
        sessions_stopContainer AList.delete_update_same)









section \<open>Destroying a session\<close>

text \<open>
  Claim C1, as the code has it. For a session in the registry, \<open>destroySession\<close> removes
  the entry exactly when \<open>docker rm\<close> succeeds, whatever \<open>docker stop\<close> answered, and it
  then returns normally. When \<open>docker rm\<close> fails, an error is thrown to the caller and
  the entry stays in the registry as it was. The error is the failure of the removal when
  a listener is registered for the event \<open>error\<close>; with no listener it is the error of
  \<open>emit\<close>, which carries that failure.
\<close>

theorem destroySession_entry_removed_iff_container_removed:
  assumes "map_of (sessions m) sid = Some session"
  shows "case docker_rm p (containerId session) of
           Inr ack \<Rightarrow>
             fst (destroySession p sid m) = Inr ()
             \<and> map_of (sessions (snd (destroySession p sid m))) sid = None
         | Inl e \<Rightarrow>
             fst (destroySession p sid m) =
               Inl (if error_listener m then RemoveFailed e
                    else UnhandledError sid (Some ''destroy'') (RemoveFailed e))
             \<and> map_of (sessions (snd (destroySession p sid m))) sid = Some session"
proof (cases "docker_rm p (containerId session)")
  case (Inl e)
  then show ?thesis
    using assms
    by (simp add: destroySession_rm_failed sessions_emit sessions_run sessions_stopContainer)
next
  case (Inr ack)
  then show ?thesis
    using assms by (simp add: destroySession_rm_done sessions_emit AList.delete_conv')
qed

theorem destroySession_entry_removed_iff_container_removed_witness:
  "map_of (sessions manager1) ''s1'' = Some session1
   \<and> fst (destroySession docker_stop_fails ''s1'' manager1) = Inr ()
   \<and> map_of (sessions (snd (destroySession docker_stop_fails ''s1'' manager1))) ''s1'' = None"
proof -
  have h: "map_of (sessions manager1) ''s1'' = Some session1"
    by (simp add: manager1_def)
  show ?thesis
    using h destroySession_entry_removed_iff_container_removed [OF h, of docker_stop_fails]
    by (simp add: docker_stop_fails_def docker_ok_def)
qed

text \<open>
  Claim C1 as stated fails: a session is created and destroyed at once, \<open>docker rm\<close>
  fails, and the registry still holds the entry.
\<close>

theorem destroySession_failed_remove_keeps_entry:
  "map_of (sessions (snd (destroySession docker_rm_fails ''s1''
      (snd (createSession docker_rm_fails ''s1'' 0 new_manager))))) ''s1'' \<noteq> None"
  by (simp add: destroySession_def stopContainer_def removeContainer_def run_def emit_def
        emit_error_def store_def createSession_def createContainer_def docker_rm_fails_def
        docker_ok_def new_manager_def)




section \<open>The periodic cleanup\<close>




section \<open>Running a command\<close>

text \<open>
  Claim C2, at a concrete input. The session has a timeout of 300000 ms, the command is
  \<open>sleep 600\<close>, and the timer fires before \<open>exec\<close> calls back. \<open>executeCommand\<close>
  returns \<open>timedOut = false\<close> with exit code 1 and an empty standard output, and the only
  Docker command issued is the \<open>docker exec\<close> itself: nothing stops the process in the
  container.
\<close>

theorem executeCommand_timer_expiry_not_flagged:
  "executeCommand docker_timer 10 10 300011 ''s1'' ''sleep 600'' no_options manager1 =
   (Inr \<lparr>exitCode = Num 1, stdout = [], stderr = ''Execution timeout exceeded'',
          durationMs = 300001, timedOut = False\<rparr>,
    \<lparr>sessions = [(''s1'', session1\<lparr>lastActivityAt := 10\<rparr>)],
     emitted = [ExecutionError ''s1'' \<lparr>exitCode = Num 1, stdout = [],
          stderr = ''Execution timeout exceeded'', durationMs = 300001, timedOut = False\<rparr>],
     warned = [], issued = [DockerExec ''c1'' ''sleep 600''], error_listener = False\<rparr>)"
  by (simp add: executeCommand_def executeInContainer_def validateSession_def store_def
      run_def emit_def code_or_1_def str_or_def docker_timer_def docker_ok_def manager1_def
      session1_def Let_def)

text \<open>
  Claim C4. For a session that is in the registry and active, \<open>executeCommand\<close> returns a
  result whatever Docker does: exit code 0 and \<open>timedOut = false\<close> when the command
  completes, and a non-zero exit code with a non-empty standard error when \<open>exec\<close> fails
  or the timer fires. For any session, the only errors it throws are the two of
  \<open>validateSession\<close>.
\<close>

theorem executeCommand_never_throws:
  "(map_of (sessions m) sid = Some session \<and> isActive session \<longrightarrow>
      (\<exists>result. fst (executeCommand p now t0 t1 sid command opts m) = Inr result
         \<and> (case docker_exec p (containerId session) command (timeoutMs session) of
               ExecDone out err \<Rightarrow> exitCode result = Num 0 \<and> \<not> timedOut result
             | ExecFailed f \<Rightarrow>
                 exitCode result = code_or_1 (fail_code f) \<and> exitCode result \<noteq> Num 0
                 \<and> stderr result \<noteq> []
             | TimerFirst \<Rightarrow> exitCode result \<noteq> Num 0 \<and> stderr result \<noteq> [])))
   \<and> (\<forall>e. fst (executeCommand p now t0 t1 sid command opts m) = Inl e \<longrightarrow>
          e = SessionNotFound sid \<or> e = SessionInactive sid)"
  by (auto simp: executeCommand_def executeInContainer_def validateSession_def Let_def
        code_or_1_def str_or_def
        split: option.splits sum.splits exec_race.splits js_code.splits if_splits)

theorem executeCommand_never_throws_witness:
  "map_of (sessions manager1) ''s1'' = Some session1 \<and> isActive session1
   \<and> (\<exists>result. fst (executeCommand docker_exec_fails 10 10 25 ''s1'' ''nosuchcmd'' no_options
          manager1) = Inr result
        \<and> exitCode result = Num 127 \<and> stderr result \<noteq> [])
   \<and> fst (executeCommand docker_exec_fails 10 10 25 ''s9'' ''nosuchcmd'' no_options manager1)
       = Inl (SessionNotFound ''s9'')"
proof -
  have h: "map_of (sessions manager1) ''s1'' = Some session1 \<and> isActive session1"
    by (simp add: manager1_def session1_def)
  have x: "docker_exec docker_exec_fails (containerId session1) ''nosuchcmd'' (timeoutMs session1)
      = ExecFailed \<lparr>fail_code = Some (Num 127), fail_killed = False, fail_stdout = [],
        fail_stderr = ''bash: nosuchcmd: command not found''\<rparr>"
    by (simp add: docker_exec_fails_def docker_ok_def)
  have n: "fst (executeCommand docker_exec_fails 10 10 25 ''s9'' ''nosuchcmd'' no_options manager1)
       = Inl (SessionNotFound ''s9'')"
    by (simp add: executeCommand_def validateSession_def manager1_def)
  show ?thesis
    using h n executeCommand_never_throws
      [of manager1 "''s1''" session1 docker_exec_fails 10 10 25 "''nosuchcmd''" no_options]
    by (auto simp: x code_or_1_def)
qed

section \<open>File operations\<close>

text \<open>
  Claim C3, as the code has it. \<open>fileOperation\<close> neither inspects nor escapes the path:
  for an active session it puts \<open>/sandbox\<close> in front of the path as given and splices
  the result, between double quotes, into the command line that it hands to the shell,
  for a read, a delete, a list and a write with content alike, whatever the path is. The
  errors it throws come from the content check, from an unknown operation type or from
  the command; none is about the path.
\<close>

theorem fileOperation_path_not_validated:
  assumes "map_of (sessions m) sid = Some session" and "isActive session"
  shows "issued (snd (fileOperation p now sid operation m)) =
           (case op_type operation of
              OpRead \<Rightarrow>
                issued m @ [Shell (''docker exec '' @ containerId session @ '' cat '' @ dq
                                     @ ''/sandbox'' @ path operation @ dq)]
            | OpWrite \<Rightarrow>
                (case content operation of
                   None \<Rightarrow> issued m
                 | Some c \<Rightarrow>
                     if c = [] then issued m
                     else issued m @ [Shell (''docker exec '' @ containerId session
                            @ '' bash -c '' @ sq @ ''cat > '' @ dq @ ''/sandbox''
                            @ path operation @ dq @ '' << '' @ sq @ ''EOF'' @ sq @ nl
                            @ escapeSingleQuotes c @ nl @ ''EOF'' @ sq)])
            | OpDelete \<Rightarrow>
                issued m @ [Shell (''docker exec '' @ containerId session @ '' rm ''
                              @ (if recursive operation = Some True then ''-rf'' else ''-f'')
                              @ '' '' @ dq @ ''/sandbox'' @ path operation @ dq)]
            | OpList \<Rightarrow>
                issued m @ [Shell (''docker exec '' @ containerId session @ '' find '' @ dq
                              @ ''/sandbox'' @ path operation @ dq @ '' -type f'')]
            | OpOther t \<Rightarrow> issued m)
         \<and> (\<forall>e. fst (fileOperation p now sid operation m) = Inl e \<longrightarrow>
               e = ContentRequired \<or> (\<exists>t. e = UnknownOperation t) \<or> (\<exists>x. e = ProviderError x))"
  using assms
  by (auto simp: fileOperation_def validateSession_def Let_def store_def emit_def run_def
      readFileInContainer_def writeFileInContainer_def deleteFileInContainer_def
      listFilesInContainer_def writeArg_def
      split: option.splits sum.splits if_splits op_kind.splits)

theorem fileOperation_path_not_validated_witness:
  "map_of (sessions manager1) ''s1'' = Some session1 \<and> isActive session1
   \<and> issued (snd (fileOperation docker_ok 10 ''s1'' write_a_txt manager1)) =
       [Shell (''docker exec c1 bash -c '' @ sq @ ''cat > '' @ dq @ ''/sandbox/a.txt'' @ dq
                 @ '' << '' @ sq @ ''EOF'' @ sq @ nl @ ''data'' @ nl @ ''EOF'' @ sq)]"
proof -
  have h: "map_of (sessions manager1) ''s1'' = Some session1"
    by (simp add: manager1_def)
  have a: "isActive session1"
    by (simp add: session1_def)
  show ?thesis
    using h a fileOperation_path_not_validated [OF h a, of docker_ok 10 write_a_txt]
    by (simp add: write_a_txt_def manager1_def session1_def escapeSingleQuotes_def)
qed

text \<open>
  Claim C3 as stated fails: a read of \<open>/../../etc/passwd\<close> on an active session runs
  \<open>cat\<close> in the container on \<open>/sandbox/../../etc/passwd\<close>, and what the command answers
  is returned.
\<close>

theorem fileOperation_traversal_reaches_backend:
  "fileOperation docker_ok 10 ''s1'' read_passwd manager1 =
   (Inr (Content ''data''),
    \<lparr>sessions = [(''s1'', session1\<lparr>lastActivityAt := 10\<rparr>)], emitted = [], warned = [],
     issued = [Shell (''docker exec c1 cat '' @ dq @ ''/sandbox/../../etc/passwd'' @ dq)],
     error_listener = False\<rparr>)"
  by (simp add: fileOperation_def validateSession_def Let_def store_def run_def
      readFileInContainer_def read_passwd_def docker_ok_def manager1_def session1_def)

text \<open>
  Claim C10, as the code has it. On an active session, a write whose content is the empty
  string throws the error of a write without content, issues no command and leaves the
  registry as the write without content leaves it.
\<close>

theorem fileOperation_write_empty_content_rejected:
  assumes "map_of (sessions m) sid = Some session" and "isActive session"
    and "op_type operation = OpWrite"
  shows "fst (fileOperation p now sid (operation\<lparr>content := Some []\<rparr>) m) = Inl ContentRequired
         \<and> fst (fileOperation p now sid (operation\<lparr>content := None\<rparr>) m) = Inl ContentRequired
         \<and> issued (snd (fileOperation p now sid (operation\<lparr>content := Some []\<rparr>) m)) = issued m
         \<and> issued (snd (fileOperation p now sid (operation\<lparr>content := None\<rparr>) m)) = issued m
         \<and> sessions (snd (fileOperation p now sid (operation\<lparr>content := Some []\<rparr>) m))
             = sessions (snd (fileOperation p now sid (operation\<lparr>content := None\<rparr>) m))"
  using assms
  by (simp add: fileOperation_def validateSession_def Let_def store_def emit_def)

theorem fileOperation_write_empty_content_rejected_witness:
  "map_of (sessions manager1) ''s1'' = Some session1 \<and> isActive session1
   \<and> op_type write_a_txt = OpWrite
   \<and> fst (fileOperation docker_ok 10 ''s1'' (write_a_txt\<lparr>content := Some []\<rparr>) manager1)
       = Inl ContentRequired
   \<and> issued (snd (fileOperation docker_ok 10 ''s1'' (write_a_txt\<lparr>content := Some []\<rparr>)
       manager1)) = []"
proof -
  have h: "map_of (sessions manager1) ''s1'' = Some session1"
    by (simp add: manager1_def)
  have a: "isActive session1"
    by (simp add: session1_def)
  have w: "op_type write_a_txt = OpWrite"
    by (simp add: write_a_txt_def)
  have i: "issued manager1 = []"
    by (simp add: manager1_def)
  show ?thesis
    using h a w fileOperation_write_empty_content_rejected [OF h a w, of docker_ok 10]
    by (simp add: i)
qed

text \<open>
  Claim C10 as stated fails in its last part: an empty file can be created through the
  write operation. The content is not empty: it is the line \<open>EOF\<close> followed by the line
  \<open>exit 0\<close>. The write is accepted and returns normally. In the command line it issues,
  the delimiter of the here-document is outside the quotes, so the script that \<open>bash\<close>
  receives has the first line of the content as the line that ends the here-document:
  the here-document has no line, and \<open>cat\<close> leaves an empty file at the path.
\<close>

theorem fileOperation_write_creates_empty_file:
  "content write_eof \<noteq> Some []
   \<and> fst (fileOperation docker_ok 10 ''s1'' write_eof manager1) = Inr Nothing
   \<and> issued (snd (fileOperation docker_ok 10 ''s1'' write_eof manager1)) =
       [Shell (''docker exec c1 bash -c ''
                 @ writeArg ''/sandbox/a.txt'' (''EOF'' @ nl @ ''exit 0''))]
   \<and> sh_unquote False (writeArg ''/sandbox/a.txt'' (''EOF'' @ nl @ ''exit 0'')) =
       ''cat > '' @ dq @ ''/sandbox/a.txt'' @ dq @ '' << EOF'' @ nl
         @ ''EOF'' @ nl @ ''exit 0'' @ nl @ ''EOF''
   \<and> here_document (sh_unquote False (writeArg ''/sandbox/a.txt'' (''EOF'' @ nl @ ''exit 0'')))
       = []"
  by (simp add: fileOperation_def validateSession_def Let_def store_def run_def
      writeFileInContainer_def writeArg_def escapeSingleQuotes_def here_document_def
      sq_def dq_def nl_def write_eof_def docker_ok_def manager1_def session1_def)

section \<open>Health\<close>

text \<open>
  Claim C9. For a session that is in the registry and active, \<open>getSessionHealth\<close> always
  returns a status. When \<open>docker stats\<close> fails, or its output does not parse, the status
  is the degraded one: the identifier, the session's \<open>isActive\<close> and the error marker.
\<close>

theorem getSessionHealth_degraded_on_stats_failure:
  assumes "map_of (sessions m) sid = Some session" and "isActive session"
  shows "(\<exists>h. fst (getSessionHealth p sid m) = Inr h)
         \<and> ((\<exists>e. docker_stats p (containerId session) = StatsFailed e)
              \<or> docker_stats p (containerId session) = StatsUnparsable \<longrightarrow>
            fst (getSessionHealth p sid m) =
              Inr (Degraded sid (isActive session) ''Failed to retrieve health status''))"
  using assms
  by (auto simp: getSessionHealth_def validateSession_def split: stats_answer.splits)

theorem getSessionHealth_degraded_on_stats_failure_witness:
  "map_of (sessions manager1) ''s1'' = Some session1 \<and> isActive session1
   \<and> docker_stats docker_stats_fails (containerId session1) = StatsFailed ''No such container''
   \<and> fst (getSessionHealth docker_stats_fails ''s1'' manager1) =
        Inr (Degraded ''s1'' True ''Failed to retrieve health status'')"
proof -
  have h: "map_of (sessions manager1) ''s1'' = Some session1"
    by (simp add: manager1_def)
  have a: "isActive session1"
    by (simp add: session1_def)
  have f: "docker_stats docker_stats_fails (containerId session1) = StatsFailed ''No such container''"
    by (simp add: docker_stats_fails_def docker_ok_def)
  show ?thesis
    using h a f getSessionHealth_degraded_on_stats_failure [OF h a, of docker_stats_fails]
    by simp
qed

section \<open>Limits\<close>

text \<open>
  Claim C5, as the code has it. When a non-empty memory limit is given and
  \<open>docker update\<close> fails, \<open>updateSessionLimits\<close> throws the memory-update error and
  emits nothing, and the session in the registry holds the values assigned before the
  Docker call, the new memory limit among them: nothing is rolled back.
\<close>

theorem updateSessionLimits_failure_keeps_new_values:
  assumes "map_of (sessions m) sid = Some session" and "isActive session"
    and "memoryLimit_opt lims = Some v" and "v \<noteq> []"
    and "docker_update_memory p v (containerId session) = Inl e"
  shows "fst (updateSessionLimits p sid lims m) = Inl (MemoryUpdateFailed e)
         \<and> map_of (sessions (snd (updateSessionLimits p sid lims m))) sid
             = Some (applyLimits lims session)
         \<and> memoryLimit (applyLimits lims session) = v
         \<and> cpuLimit (applyLimits lims session) = str_or (cpuLimit_opt lims) (cpuLimit session)
         \<and> timeoutMs (applyLimits lims session) =
             (case timeoutMs_opt lims of
                Some n \<Rightarrow> if n \<noteq> 0 then n else timeoutMs session
              | None \<Rightarrow> timeoutMs session)
         \<and> emitted (snd (updateSessionLimits p sid lims m)) = emitted m"
  using assms
  by (auto simp: updateSessionLimits_def validateSession_def Let_def store_def emit_def run_def
      applyLimits_def AList.update_conv' str_or_def split: option.splits)

theorem updateSessionLimits_failure_keeps_new_values_witness:
  "map_of (sessions manager1) ''s1'' = Some session1 \<and> isActive session1
   \<and> memoryLimit_opt limits_all = Some ''256m'' \<and> ''256m'' \<noteq> []
   \<and> docker_update_memory docker_update_fails ''256m'' (containerId session1)
       = Inl ''cannot update a stopped container''
   \<and> fst (updateSessionLimits docker_update_fails ''s1'' limits_all manager1)
       = Inl (MemoryUpdateFailed ''cannot update a stopped container'')
   \<and> map_of (sessions (snd (updateSessionLimits docker_update_fails ''s1'' limits_all manager1)))
       ''s1'' = Some (applyLimits limits_all session1)
   \<and> memoryLimit (applyLimits limits_all session1) = ''256m''"
proof -
  have h: "map_of (sessions manager1) ''s1'' = Some session1"
    by (simp add: manager1_def)
  have a: "isActive session1"
    by (simp add: session1_def)
  have l: "memoryLimit_opt limits_all = Some ''256m''"
    by (simp add: limits_all_def)
  have n: "''256m'' \<noteq> []"
    by simp
  have f: "docker_update_memory docker_update_fails ''256m'' (containerId session1)
       = Inl ''cannot update a stopped container''"
    by (simp add: docker_update_fails_def docker_ok_def)
  show ?thesis
    using h a l f updateSessionLimits_failure_keeps_new_values [OF h a l n f]
    by simp
qed

text \<open>
  Claim C5 as stated fails: \<open>docker update\<close> fails, the call throws, and the session in
  the registry has the new memory limit, CPU limit and timeout, not the ones it had.
\<close>

theorem updateSessionLimits_failure_no_rollback:
  "fst (updateSessionLimits docker_update_fails ''s1'' limits_all manager1)
     = Inl (MemoryUpdateFailed ''cannot update a stopped container'')
   \<and> sessions (snd (updateSessionLimits docker_update_fails ''s1'' limits_all manager1))
     = [(''s1'', session1\<lparr>memoryLimit := ''256m'', cpuLimit := ''2'', timeoutMs := 120000\<rparr>)]
   \<and> session1\<lparr>memoryLimit := ''256m'', cpuLimit := ''2'', timeoutMs := 120000\<rparr> \<noteq> session1"
  by (simp add: updateSessionLimits_def validateSession_def Let_def store_def run_def
      applyLimits_def limits_all_def docker_update_fails_def docker_ok_def manager1_def
      session1_def)

text \<open>
  Claim C8, as the code has it. For an active session, whether \<open>docker update\<close> succeeds
  or not, \<open>updateSessionLimits\<close> changes nothing in the registry but the memory limit,
  the CPU limit and the timeout of that session, and each of the three becomes the value
  given for it when that value is truthy (a non-empty string, a number other than 0) and
  keeps its current value otherwise.
\<close>

theorem updateSessionLimits_applies_truthy_fields:
  assumes "map_of (sessions m) sid = Some session" and "isActive session"
  shows "map_of (sessions (snd (updateSessionLimits p sid lims m))) =
           (map_of (sessions m))(sid \<mapsto> session
              \<lparr>memoryLimit := str_or (memoryLimit_opt lims) (memoryLimit session),
               cpuLimit := str_or (cpuLimit_opt lims) (cpuLimit session),
               timeoutMs := (case timeoutMs_opt lims of
                               Some n \<Rightarrow> if n \<noteq> 0 then n else timeoutMs session
                             | None \<Rightarrow> timeoutMs session)\<rparr>)"
  using assms
  by (auto simp: updateSessionLimits_def validateSession_def Let_def store_def emit_def run_def
      applyLimits_def AList.update_conv' str_or_def split: option.splits sum.splits)

theorem updateSessionLimits_applies_truthy_fields_witness:
  "map_of (sessions manager1) ''s1'' = Some session1 \<and> isActive session1
   \<and> map_of (sessions (snd (updateSessionLimits docker_ok ''s1'' limits_timeout manager1))) ''s1''
       = Some (session1\<lparr>timeoutMs := 120000\<rparr>)"
proof -
  have h: "map_of (sessions manager1) ''s1'' = Some session1"
    by (simp add: manager1_def)
  have a: "isActive session1"
    by (simp add: session1_def)
  show ?thesis
    using h a updateSessionLimits_applies_truthy_fields [OF h a, of docker_ok limits_timeout]
    by (simp add: limits_timeout_def str_or_def)
qed

text \<open>
  Claim C8 as stated fails: a timeout of 0 is given, alone, and the session keeps its
  timeout of 300000.
\<close>

theorem updateSessionLimits_zero_timeout_ignored:
  "timeoutMs_opt limits_timeout0 = Some 0
   \<and> fst (updateSessionLimits docker_ok ''s1'' limits_timeout0 manager1) = Inr ()
   \<and> map_of (sessions (snd (updateSessionLimits docker_ok ''s1'' limits_timeout0 manager1))) ''s1''
       = Some session1
   \<and> timeoutMs session1 = 300000"
  by (simp add: updateSessionLimits_def validateSession_def Let_def store_def emit_def
      applyLimits_def limits_timeout0_def manager1_def session1_def)

end
